theory Spec2Isabelle
  imports Complex_Main
begin

section \<open>The secure file-system adapter: data model\<close>

text \<open>
  The module \<open>secure-fs\<close> mediates every file operation: it validates the path,
  admits the operation through a concurrency limiter and retries it when the
  operating system runs out of file descriptors.

  JavaScript values that the module inspects (thrown errors and their \<open>code\<close>
  property) are modelled by \<open>js_value\<close>. An object is the list of the properties that
  the \<open>in\<close> operator sees. JavaScript numbers are idealised: counts are integers,
  durations are real numbers (no rounding, no NaN, no infinity).
\<close>

datatype js_value =
    JUndefined
  | JNull
  | JBool bool
  | JNum real
  | JStr string
  | JObj "(string \<times> js_value) list"

fun truthy :: "js_value \<Rightarrow> bool" where
  "truthy JUndefined = False"
| "truthy JNull = False"
| "truthy (JBool b) = b"
| "truthy (JNum x) = (x \<noteq> 0)"
| "truthy (JStr s) = (s \<noteq> [])"
| "truthy (JObj ps) = True"

fun typeof :: "js_value \<Rightarrow> string" where
  "typeof JUndefined = ''undefined''"
| "typeof JNull = ''object''"
| "typeof (JBool b) = ''boolean''"
| "typeof (JNum x) = ''number''"
| "typeof (JStr s) = ''string''"
| "typeof (JObj ps) = ''object''"

text \<open>\<open>'k' in v\<close> and \<open>v.k\<close> for a value that is already known to be an object.\<close>

fun has_property :: "string \<Rightarrow> js_value \<Rightarrow> bool" where
  "has_property k (JObj ps) = (k \<in> set (map fst ps))"
| "has_property k v = False"

fun get_property :: "js_value \<Rightarrow> string \<Rightarrow> js_value" where
  "get_property (JObj ps) k = (case map_of ps k of Some v \<Rightarrow> v | None \<Rightarrow> JUndefined)"
| "get_property v k = JUndefined"

text \<open>\<open>new Error(message)\<close> and \<open>new TypeError(message)\<close>.\<close>

definition mkError :: "string \<Rightarrow> string \<Rightarrow> js_value" where
  "mkError nm msg = JObj [(''name'', JStr nm), (''message'', JStr msg)]"

text \<open>Decimal rendering of a count inside a template string.\<close>

definition digit_char :: "nat \<Rightarrow> char" where
  "digit_char d = char_of (48 + d)"

function string_of_nat :: "nat \<Rightarrow> string" where
  "string_of_nat n =
     (if n < 10 then [digit_char n] else string_of_nat (n div 10) @ [digit_char (n mod 10)])"
  by pat_completeness auto
termination
  by (relation "measure id") auto

subsection \<open>ThrottleConfig\<close>

record ThrottleConfig =
  maxConcurrency :: int
  maxRetries :: int
  baseDelay :: real
  maxDelay :: real

text \<open>
  \<open>Partial<ThrottleConfig>\<close>: each field is either omitted (\<open>None\<close>) or supplied with a
  number (\<open>Some v\<close>). A field that is present with the value \<open>undefined\<close> is outside
  the model.
\<close>

record PartialThrottleConfig =
  p_maxConcurrency :: "int option"
  p_maxRetries :: "int option"
  p_baseDelay :: "real option"
  p_maxDelay :: "real option"

definition DEFAULT_CONFIG :: ThrottleConfig where
  "DEFAULT_CONFIG =
     \<lparr>maxConcurrency = 100, maxRetries = 3, baseDelay = 100, maxDelay = 5000\<rparr>"

text \<open>The object spread \<open>{ ...c, ...p }\<close>: a supplied field of \<open>p\<close> overrides that of \<open>c\<close>.\<close>

definition spread :: "ThrottleConfig \<Rightarrow> PartialThrottleConfig \<Rightarrow> ThrottleConfig" where
  "spread c p =
     \<lparr>maxConcurrency = (case p_maxConcurrency p of Some v \<Rightarrow> v | None \<Rightarrow> maxConcurrency c),
      maxRetries = (case p_maxRetries p of Some v \<Rightarrow> v | None \<Rightarrow> maxRetries c),
      baseDelay = (case p_baseDelay p of Some v \<Rightarrow> v | None \<Rightarrow> baseDelay c),
      maxDelay = (case p_maxDelay p of Some v \<Rightarrow> v | None \<Rightarrow> maxDelay c)\<rparr>"

subsection \<open>The limiter\<close>

text \<open>
  Modelled from the spec: the limiter, which the module takes from the external
  package \<open>p-limit\<close>, is a counting semaphore (section 4.1) with a capacity, the number
  of operations executing and the number waiting. \<open>pLimit n\<close> makes a limiter of
  capacity \<open>n\<close> with nothing active or pending; as the package does, it refuses a
  capacity that is not positive.
\<close>

record limiter =
  concurrency :: int
  activeCount :: nat
  pendingCount :: nat

definition pLimit :: "int \<Rightarrow> js_value + limiter" where
  "pLimit c =
     (if 0 < c then Inr \<lparr>concurrency = c, activeCount = 0, pendingCount = 0\<rparr>
      else Inl (mkError ''TypeError'' ''Expected `concurrency` to be a number from 1 and up''))"

subsection \<open>Events and the module state\<close>

text \<open>
  The file-system primitives of \<open>fs/promises\<close> that the entry points invoke, with the
  arguments they pass.
\<close>

datatype syscall =
    FsAccess string "int option"
  | FsReadFile string "string option"
  | FsWriteFile string string "string option"
  | FsMkdir string "(bool option \<times> int option) option"
  | FsReaddir string bool
  | FsStat string
  | FsRm string "(bool option \<times> bool option) option"
  | FsUnlink string
  | FsCopyFile string string "int option"
  | FsAppendFile string string "string option"
  | FsRename string string
  | FsLstat string

text \<open>
  What an execution leaves behind, in order: the limiter's admissions, each invocation
  of a primitive with the error it failed with (if any), each \<open>console.warn\<close> of the
  retry loop (operation name, attempt number shown, number of attempts shown, delay)
  and each sleep.
\<close>

datatype event =
    EvEnqueue
  | EvAdmit
  | EvRelease
  | EvAttempt syscall "js_value option"
  | EvWarn string int int real
  | EvSleep real

text \<open>
  The module variables. \<open>config\<close> is a reference into \<open>heap\<close>, the store of
  ThrottleConfig objects (\<open>nextRef\<close> is the first address not yet allocated);
  \<open>world\<close> is the state of the operating system, \<open>trace\<close> the events so far.
\<close>

record 'w state =
  heap :: "nat \<Rightarrow> ThrottleConfig"
  nextRef :: nat
  config :: nat
  fsLimit :: limiter
  world :: 'w
  trace :: "event list"

text \<open>The object that the variable \<open>config\<close> refers to.\<close>

definition live :: "'w state \<Rightarrow> ThrottleConfig" where
  "live st = heap st (config st)"

text \<open>Allocation of a new object literal.\<close>

definition alloc :: "ThrottleConfig \<Rightarrow> 'w state \<Rightarrow> nat \<times> 'w state" where
  "alloc obj st = (nextRef st, st\<lparr>heap := (heap st)(nextRef st := obj), nextRef := Suc (nextRef st)\<rparr>)"

text \<open>
  Module initialisation: \<open>let config = { ...DEFAULT_CONFIG }\<close> and
  \<open>let fsLimit = pLimit(config.maxConcurrency)\<close>.
\<close>

definition init :: "'w \<Rightarrow> 'w state" where
  "init w =
     \<lparr>heap = (\<lambda>_. DEFAULT_CONFIG), nextRef = 1, config = 0,
      fsLimit = \<lparr>concurrency = maxConcurrency DEFAULT_CONFIG, activeCount = 0, pendingCount = 0\<rparr>,
      world = w, trace = []\<rparr>"

section \<open>Configuration manager\<close>

definition conflictError :: "limiter \<Rightarrow> js_value" where
  "conflictError lm =
     mkError ''Error''
       (''[SecureFS] Cannot change maxConcurrency while operations are in flight. Active: ''
        @ string_of_nat (activeCount lm) @ '', Pending: '' @ string_of_nat (pendingCount lm))"

definition configureThrottling ::
  "'w state \<Rightarrow> PartialThrottleConfig \<Rightarrow> (js_value + unit) \<times> 'w state" where
  "configureThrottling st newConfig =
     (let newConcurrency = p_maxConcurrency newConfig;
          merge = (\<lambda>s. case alloc (spread (live s) newConfig) s of
                          (r, s') \<Rightarrow> (Inr (), s'\<lparr>config := r\<rparr>))
      in case newConcurrency of
           None \<Rightarrow> merge st
         | Some n \<Rightarrow>
             if n \<noteq> maxConcurrency (live st) then
               if 0 < activeCount (fsLimit st) \<or> 0 < pendingCount (fsLimit st)
               then (Inl (conflictError (fsLimit st)), st)
               else (case pLimit n of
                       Inl e \<Rightarrow> (Inl e, st)
                     | Inr lm \<Rightarrow> merge (st\<lparr>fsLimit := lm\<rparr>))
             else merge st)"

definition getThrottlingConfig :: "'w state \<Rightarrow> nat \<times> 'w state" where
  "getThrottlingConfig st = alloc (live st) st"

definition getPendingOperations :: "'w state \<Rightarrow> nat" where
  "getPendingOperations st = pendingCount (fsLimit st)"

definition getActiveOperations :: "'w state \<Rightarrow> nat" where
  "getActiveOperations st = activeCount (fsLimit st)"

section \<open>Retry engine\<close>

definition FILE_DESCRIPTOR_ERROR_CODES :: "string list" where
  "FILE_DESCRIPTOR_ERROR_CODES = [''ENFILE'', ''EMFILE'']"

text \<open>\<open>Set.has\<close> on a set of strings: only a string can be a member.\<close>

fun set_has :: "string list \<Rightarrow> js_value \<Rightarrow> bool" where
  "set_has codes (JStr s) = (s \<in> set codes)"
| "set_has codes v = False"

definition isFileDescriptorError :: "js_value \<Rightarrow> bool" where
  "isFileDescriptorError error =
     (if truthy error \<and> typeof error = ''object'' \<and> has_property ''code'' error
      then set_has FILE_DESCRIPTOR_ERROR_CODES (get_property error ''code'')
      else False)"

text \<open>\<open>random\<close> is the value that \<open>Math.random()\<close> returns, a number in \<open>[0, 1)\<close>.\<close>

definition calculateDelay :: "ThrottleConfig \<Rightarrow> real \<Rightarrow> nat \<Rightarrow> real" where
  "calculateDelay cfg random attempt =
     (let exponentialDelay = baseDelay cfg * 2 ^ attempt;
          jitter = random * baseDelay cfg
      in min (exponentialDelay + jitter) (maxDelay cfg))"

text \<open>
  The file system: invoking a primitive in a world gives a result or a thrown value,
  and the next world.
\<close>

type_synonym ('w, 'r) filesystem = "syscall \<Rightarrow> 'w \<Rightarrow> (js_value + 'r) \<times> 'w"

definition emit :: "event list \<Rightarrow> 'w state \<Rightarrow> 'w state" where
  "emit evs st = st\<lparr>trace := trace st @ evs\<rparr>"

text \<open>
  The \<open>for\<close> loop of \<open>executeWithRetry\<close>, from the iteration \<open>attempt\<close> on.
  \<open>operation\<close> is the primitive call that the closure makes; \<open>rnd k\<close> is what
  \<open>Math.random()\<close> returns after attempt \<open>k\<close> has failed. The configuration is read
  from the module variable in every iteration, as in the source.
\<close>

function retryLoop ::
  "('w, 'r) filesystem \<Rightarrow> (nat \<Rightarrow> real) \<Rightarrow> syscall \<Rightarrow> string \<Rightarrow> nat \<Rightarrow> js_value
     \<Rightarrow> 'w state \<Rightarrow> (js_value + 'r) \<times> 'w state" where
  "retryLoop fs rnd operation operationName attempt lastError st =
     (if int attempt \<le> maxRetries (live st) then
        (case fs operation (world st) of
           (Inr v, w) \<Rightarrow> (Inr v, emit [EvAttempt operation None] (st\<lparr>world := w\<rparr>))
         | (Inl error, w) \<Rightarrow>
             (let st1 = emit [EvAttempt operation (Some error)] (st\<lparr>world := w\<rparr>)
              in if isFileDescriptorError error \<and> int attempt < maxRetries (live st1) then
                   (let delay = calculateDelay (live st1) (rnd attempt) attempt;
                        st2 = emit [EvWarn operationName (int attempt + 1)
                                      (maxRetries (live st1) + 1) delay,
                                    EvSleep delay] st1
                    in retryLoop fs rnd operation operationName (Suc attempt) error st2)
                 else (Inl error, st1)))
      else (Inl lastError, st))"
  by pat_completeness auto
termination
  by (relation "measure (\<lambda>(fs, rnd, operation, operationName, attempt, lastError, st).
                  nat (maxRetries (live st) + 1) - attempt)")
     (auto simp: live_def emit_def)

text \<open>How a call through the limiter stands when the model stops following it.\<close>

datatype 'r promise = Fulfilled 'r | Rejected js_value | Pending

fun settle :: "js_value + 'r \<Rightarrow> 'r promise" where
  "settle (Inl e) = Rejected e"
| "settle (Inr v) = Fulfilled v"

text \<open>
  Modelled from the spec: the call \<open>fsLimit(fn)\<close> of the limiter (section 4.1) admits
  the task when a slot is free and nothing waits before it, runs it and releases the
  slot; otherwise the task joins the queue. The model follows one call until it
  settles or is parked in the queue; no other call runs in between, so the
  configuration does not change while the loop runs.
\<close>

definition executeWithRetry ::
  "('w, 'r) filesystem \<Rightarrow> (nat \<Rightarrow> real) \<Rightarrow> syscall \<Rightarrow> string \<Rightarrow> 'w state
     \<Rightarrow> 'r promise \<times> 'w state" where
  "executeWithRetry fs rnd operation operationName st =
     (if int (activeCount (fsLimit st)) < concurrency (fsLimit st) \<and> pendingCount (fsLimit st) = 0
      then
        (let st1 = emit [EvAdmit]
                     (st\<lparr>fsLimit := (fsLimit st)\<lparr>activeCount := Suc (activeCount (fsLimit st))\<rparr>\<rparr>)
         in case retryLoop fs rnd operation operationName 0 JUndefined st1 of
              (r, st2) \<Rightarrow>
                (settle r,
                 emit [EvRelease]
                   (st2\<lparr>fsLimit := (fsLimit st2)\<lparr>activeCount := activeCount (fsLimit st2) - 1\<rparr>\<rparr>)))
      else
        (Pending,
         emit [EvEnqueue]
           (st\<lparr>fsLimit := (fsLimit st)\<lparr>pendingCount := Suc (pendingCount (fsLimit st))\<rparr>\<rparr>)))"

section \<open>Operation surface\<close>

text \<open>
  \<open>validatePath\<close> is the access gate, imported from the module \<open>security\<close>: it
  returns the canonical path or throws. It is a parameter of every entry point here, as
  are the file system and the random numbers. Every entry point is an \<open>async\<close>
  function, so a throw of \<open>validatePath\<close> rejects the promise it returns.
\<close>

definition access ::
  "(string \<Rightarrow> js_value + string) \<Rightarrow> ('w, 'r) filesystem \<Rightarrow> (nat \<Rightarrow> real) \<Rightarrow> 'w state
     \<Rightarrow> string \<Rightarrow> int option \<Rightarrow> 'r promise \<times> 'w state" where
  "access validatePath fs rnd st filePath mode =
     (case validatePath filePath of
        Inl e \<Rightarrow> (Rejected e, st)
      | Inr validatedPath \<Rightarrow>
          executeWithRetry fs rnd (FsAccess validatedPath mode)
            (''access('' @ filePath @ '')'') st)"

definition readFile ::
  "(string \<Rightarrow> js_value + string) \<Rightarrow> ('w, 'r) filesystem \<Rightarrow> (nat \<Rightarrow> real) \<Rightarrow> 'w state
     \<Rightarrow> string \<Rightarrow> string option \<Rightarrow> 'r promise \<times> 'w state" where
  "readFile validatePath fs rnd st filePath encoding =
     (case validatePath filePath of
        Inl e \<Rightarrow> (Rejected e, st)
      | Inr validatedPath \<Rightarrow>
          executeWithRetry fs rnd
            (case encoding of
               Some enc \<Rightarrow>
                 if enc \<noteq> [] then FsReadFile validatedPath (Some enc)
                 else FsReadFile validatedPath None
             | None \<Rightarrow> FsReadFile validatedPath None)
            (''readFile('' @ filePath @ '')'') st)"

definition writeFile ::
  "(string \<Rightarrow> js_value + string) \<Rightarrow> ('w, 'r) filesystem \<Rightarrow> (nat \<Rightarrow> real) \<Rightarrow> 'w state
     \<Rightarrow> string \<Rightarrow> string \<Rightarrow> string option \<Rightarrow> 'r promise \<times> 'w state" where
  "writeFile validatePath fs rnd st filePath data encoding =
     (case validatePath filePath of
        Inl e \<Rightarrow> (Rejected e, st)
      | Inr validatedPath \<Rightarrow>
          executeWithRetry fs rnd (FsWriteFile validatedPath data encoding)
            (''writeFile('' @ filePath @ '')'') st)"

definition mkdir ::
  "(string \<Rightarrow> js_value + string) \<Rightarrow> ('w, 'r) filesystem \<Rightarrow> (nat \<Rightarrow> real) \<Rightarrow> 'w state
     \<Rightarrow> string \<Rightarrow> (bool option \<times> int option) option \<Rightarrow> 'r promise \<times> 'w state" where
  "mkdir validatePath fs rnd st dirPath options =
     (case validatePath dirPath of
        Inl e \<Rightarrow> (Rejected e, st)
      | Inr validatedPath \<Rightarrow>
          executeWithRetry fs rnd (FsMkdir validatedPath options)
            (''mkdir('' @ dirPath @ '')'') st)"

definition readdir ::
  "(string \<Rightarrow> js_value + string) \<Rightarrow> ('w, 'r) filesystem \<Rightarrow> (nat \<Rightarrow> real) \<Rightarrow> 'w state
     \<Rightarrow> string \<Rightarrow> (bool option \<times> string option) option \<Rightarrow> 'r promise \<times> 'w state" where
  "readdir validatePath fs rnd st dirPath options =
     (case validatePath dirPath of
        Inl e \<Rightarrow> (Rejected e, st)
      | Inr validatedPath \<Rightarrow>
          executeWithRetry fs rnd
            (case options of
               Some (Some True, encoding) \<Rightarrow> FsReaddir validatedPath True
             | _ \<Rightarrow> FsReaddir validatedPath False)
            (''readdir('' @ dirPath @ '')'') st)"

definition stat ::
  "(string \<Rightarrow> js_value + string) \<Rightarrow> ('w, 'r) filesystem \<Rightarrow> (nat \<Rightarrow> real) \<Rightarrow> 'w state
     \<Rightarrow> string \<Rightarrow> 'r promise \<times> 'w state" where
  "stat validatePath fs rnd st filePath =
     (case validatePath filePath of
        Inl e \<Rightarrow> (Rejected e, st)
      | Inr validatedPath \<Rightarrow>
          executeWithRetry fs rnd (FsStat validatedPath)
            (''stat('' @ filePath @ '')'') st)"

definition rm ::
  "(string \<Rightarrow> js_value + string) \<Rightarrow> ('w, 'r) filesystem \<Rightarrow> (nat \<Rightarrow> real) \<Rightarrow> 'w state
     \<Rightarrow> string \<Rightarrow> (bool option \<times> bool option) option \<Rightarrow> 'r promise \<times> 'w state" where
  "rm validatePath fs rnd st filePath options =
     (case validatePath filePath of
        Inl e \<Rightarrow> (Rejected e, st)
      | Inr validatedPath \<Rightarrow>
          executeWithRetry fs rnd (FsRm validatedPath options)
            (''rm('' @ filePath @ '')'') st)"

definition unlink ::
  "(string \<Rightarrow> js_value + string) \<Rightarrow> ('w, 'r) filesystem \<Rightarrow> (nat \<Rightarrow> real) \<Rightarrow> 'w state
     \<Rightarrow> string \<Rightarrow> 'r promise \<times> 'w state" where
  "unlink validatePath fs rnd st filePath =
     (case validatePath filePath of
        Inl e \<Rightarrow> (Rejected e, st)
      | Inr validatedPath \<Rightarrow>
          executeWithRetry fs rnd (FsUnlink validatedPath)
            (''unlink('' @ filePath @ '')'') st)"

definition copyFile ::
  "(string \<Rightarrow> js_value + string) \<Rightarrow> ('w, 'r) filesystem \<Rightarrow> (nat \<Rightarrow> real) \<Rightarrow> 'w state
     \<Rightarrow> string \<Rightarrow> string \<Rightarrow> int option \<Rightarrow> 'r promise \<times> 'w state" where
  "copyFile validatePath fs rnd st src dest mode =
     (case validatePath src of
        Inl e \<Rightarrow> (Rejected e, st)
      | Inr validatedSrc \<Rightarrow>
          (case validatePath dest of
             Inl e \<Rightarrow> (Rejected e, st)
           | Inr validatedDest \<Rightarrow>
               executeWithRetry fs rnd (FsCopyFile validatedSrc validatedDest mode)
                 (''copyFile('' @ src @ '', '' @ dest @ '')'') st))"

definition appendFile ::
  "(string \<Rightarrow> js_value + string) \<Rightarrow> ('w, 'r) filesystem \<Rightarrow> (nat \<Rightarrow> real) \<Rightarrow> 'w state
     \<Rightarrow> string \<Rightarrow> string \<Rightarrow> string option \<Rightarrow> 'r promise \<times> 'w state" where
  "appendFile validatePath fs rnd st filePath data encoding =
     (case validatePath filePath of
        Inl e \<Rightarrow> (Rejected e, st)
      | Inr validatedPath \<Rightarrow>
          executeWithRetry fs rnd (FsAppendFile validatedPath data encoding)
            (''appendFile('' @ filePath @ '')'') st)"

definition rename ::
  "(string \<Rightarrow> js_value + string) \<Rightarrow> ('w, 'r) filesystem \<Rightarrow> (nat \<Rightarrow> real) \<Rightarrow> 'w state
     \<Rightarrow> string \<Rightarrow> string \<Rightarrow> 'r promise \<times> 'w state" where
  "rename validatePath fs rnd st oldPath newPath =
     (case validatePath oldPath of
        Inl e \<Rightarrow> (Rejected e, st)
      | Inr validatedOldPath \<Rightarrow>
          (case validatePath newPath of
             Inl e \<Rightarrow> (Rejected e, st)
           | Inr validatedNewPath \<Rightarrow>
               executeWithRetry fs rnd (FsRename validatedOldPath validatedNewPath)
                 (''rename('' @ oldPath @ '', '' @ newPath @ '')'') st))"

definition lstat ::
  "(string \<Rightarrow> js_value + string) \<Rightarrow> ('w, 'r) filesystem \<Rightarrow> (nat \<Rightarrow> real) \<Rightarrow> 'w state
     \<Rightarrow> string \<Rightarrow> 'r promise \<times> 'w state" where
  "lstat validatePath fs rnd st filePath =
     (case validatePath filePath of
        Inl e \<Rightarrow> (Rejected e, st)
      | Inr validatedPath \<Rightarrow>
          executeWithRetry fs rnd (FsLstat validatedPath)
            (''lstat('' @ filePath @ '')'') st)"

text \<open>
  A call of one of the twelve entry points, with its arguments; \<open>perform\<close> makes the
  call, \<open>paths_of\<close> lists the paths that the caller supplies and \<open>syscall_paths\<close>
  the paths that a primitive receives.
\<close>

datatype request =
    Access string "int option"
  | ReadFile string "string option"
  | WriteFile string string "string option"
  | Mkdir string "(bool option \<times> int option) option"
  | Readdir string "(bool option \<times> string option) option"
  | Stat string
  | Lstat string
  | Rm string "(bool option \<times> bool option) option"
  | Unlink string
  | CopyFile string string "int option"
  | AppendFile string string "string option"
  | Rename string string

fun perform ::
  "(string \<Rightarrow> js_value + string) \<Rightarrow> ('w, 'r) filesystem \<Rightarrow> (nat \<Rightarrow> real) \<Rightarrow> 'w state
     \<Rightarrow> request \<Rightarrow> 'r promise \<times> 'w state" where
  "perform vp fs rnd st (Access p m) = access vp fs rnd st p m"
| "perform vp fs rnd st (ReadFile p enc) = readFile vp fs rnd st p enc"
| "perform vp fs rnd st (WriteFile p d enc) = writeFile vp fs rnd st p d enc"
| "perform vp fs rnd st (Mkdir p opts) = mkdir vp fs rnd st p opts"
| "perform vp fs rnd st (Readdir p opts) = readdir vp fs rnd st p opts"
| "perform vp fs rnd st (Stat p) = stat vp fs rnd st p"
| "perform vp fs rnd st (Lstat p) = lstat vp fs rnd st p"
| "perform vp fs rnd st (Rm p opts) = rm vp fs rnd st p opts"
| "perform vp fs rnd st (Unlink p) = unlink vp fs rnd st p"
| "perform vp fs rnd st (CopyFile p q m) = copyFile vp fs rnd st p q m"
| "perform vp fs rnd st (AppendFile p d enc) = appendFile vp fs rnd st p d enc"
| "perform vp fs rnd st (Rename p q) = rename vp fs rnd st p q"

fun paths_of :: "request \<Rightarrow> string list" where
  "paths_of (Access p m) = [p]"
| "paths_of (ReadFile p enc) = [p]"
| "paths_of (WriteFile p d enc) = [p]"
| "paths_of (Mkdir p opts) = [p]"
| "paths_of (Readdir p opts) = [p]"
| "paths_of (Stat p) = [p]"
| "paths_of (Lstat p) = [p]"
| "paths_of (Rm p opts) = [p]"
| "paths_of (Unlink p) = [p]"
| "paths_of (CopyFile p q m) = [p, q]"
| "paths_of (AppendFile p d enc) = [p]"
| "paths_of (Rename p q) = [p, q]"

fun syscall_paths :: "syscall \<Rightarrow> string list" where
  "syscall_paths (FsAccess p m) = [p]"
| "syscall_paths (FsReadFile p enc) = [p]"
| "syscall_paths (FsWriteFile p d enc) = [p]"
| "syscall_paths (FsMkdir p opts) = [p]"
| "syscall_paths (FsReaddir p b) = [p]"
| "syscall_paths (FsStat p) = [p]"
| "syscall_paths (FsRm p opts) = [p]"
| "syscall_paths (FsUnlink p) = [p]"
| "syscall_paths (FsCopyFile p q m) = [p, q]"
| "syscall_paths (FsAppendFile p d enc) = [p]"
| "syscall_paths (FsRename p q) = [p, q]"
| "syscall_paths (FsLstat p) = [p]"

subsection \<open>Path composition\<close>

text \<open>
  \<open>joinPath\<close> and \<open>resolvePath\<close> hand their arguments to \<open>path.join\<close> and
  \<open>path.resolve\<close> of the Node.js library, which is not part of the module. The two
  library functions are modelled after their documentation, in the POSIX variant and
  segment by segment: \<open>path.resolve\<close> works from the last argument to the first until
  it has an absolute path and falls back on the current working directory of the
  process, \<open>cwd\<close>, when the arguments give none.
\<close>

fun split_slash :: "string \<Rightarrow> string list" where
  "split_slash [] = [[]]"
| "split_slash (c # cs) =
     (if c = CHR ''/'' then [] # split_slash cs
      else (case split_slash cs of
              [] \<Rightarrow> [[c]]
            | s # ss \<Rightarrow> (c # s) # ss))"

fun join_slash :: "string list \<Rightarrow> string" where
  "join_slash [] = []"
| "join_slash [s] = s"
| "join_slash (s # t # ss) = s @ ''/'' @ join_slash (t # ss)"

text \<open>The segments kept so far are held in reverse, the last one first.\<close>

fun normalize_segments :: "bool \<Rightarrow> string list \<Rightarrow> string list \<Rightarrow> string list" where
  "normalize_segments allowAboveRoot res [] = rev res"
| "normalize_segments allowAboveRoot res (s # ss) =
     (if s = [] \<or> s = ''.'' then normalize_segments allowAboveRoot res ss
      else if s = ''..'' then
        (case res of
           [] \<Rightarrow> normalize_segments allowAboveRoot (if allowAboveRoot then [''..''] else []) ss
         | t # ts \<Rightarrow>
             if t = ''..''
             then normalize_segments allowAboveRoot (if allowAboveRoot then ''..'' # res else res) ss
             else normalize_segments allowAboveRoot ts ss)
      else normalize_segments allowAboveRoot (s # res) ss)"

definition normalizeString :: "string \<Rightarrow> bool \<Rightarrow> string" where
  "normalizeString path allowAboveRoot =
     join_slash (normalize_segments allowAboveRoot [] (split_slash path))"

definition starts_with_slash :: "string \<Rightarrow> bool" where
  "starts_with_slash path = (case path of [] \<Rightarrow> False | c # cs \<Rightarrow> c = CHR ''/'')"

definition ends_with_slash :: "string \<Rightarrow> bool" where
  "ends_with_slash path = (path \<noteq> [] \<and> last path = CHR ''/'')"

definition posix_normalize :: "string \<Rightarrow> string" where
  "posix_normalize path =
     (if path = [] then ''.''
      else
        (let isAbsolute = starts_with_slash path;
             trailingSeparator = ends_with_slash path;
             p = normalizeString path (\<not> isAbsolute)
         in if p = [] then (if isAbsolute then ''/'' else if trailingSeparator then ''./'' else ''.'')
            else (let p' = (if trailingSeparator then p @ ''/'' else p)
                  in if isAbsolute then ''/'' @ p' else p')))"

definition posix_join :: "string list \<Rightarrow> string" where
  "posix_join args =
     (case filter (\<lambda>arg. arg \<noteq> []) args of
        [] \<Rightarrow> ''.''
      | a # as \<Rightarrow> posix_normalize (join_slash (a # as)))"

text \<open>
  The loop of \<open>path.resolve\<close> over the arguments from the last to the first and then
  the working directory; it stops at the first absolute path.
\<close>

fun resolve_loop :: "string list \<Rightarrow> string \<Rightarrow> string \<times> bool" where
  "resolve_loop [] resolvedPath = (resolvedPath, False)"
| "resolve_loop (p # ps) resolvedPath =
     (if p = [] then resolve_loop ps resolvedPath
      else if starts_with_slash p then (p @ ''/'' @ resolvedPath, True)
      else resolve_loop ps (p @ ''/'' @ resolvedPath))"

definition posix_resolve :: "string \<Rightarrow> string list \<Rightarrow> string" where
  "posix_resolve cwd args =
     (case resolve_loop (rev args @ [cwd]) [] of
        (resolvedPath, resolvedAbsolute) \<Rightarrow>
          (let p = normalizeString resolvedPath (\<not> resolvedAbsolute)
           in if resolvedAbsolute then ''/'' @ p
              else if p \<noteq> [] then p else ''.''))"

text \<open>
  The two helpers are exports of the same module: the gate, the file system, the
  random numbers and the module state are in their scope as they are in that of the
  entry points, and like every export they return a thrown value or a result.
\<close>

definition joinPath ::
  "(string \<Rightarrow> js_value + string) \<Rightarrow> ('w, 'r) filesystem \<Rightarrow> (nat \<Rightarrow> real) \<Rightarrow> 'w state
     \<Rightarrow> string list \<Rightarrow> (js_value + string) \<times> 'w state" where
  "joinPath validatePath fs rnd st pathSegments = (Inr (posix_join pathSegments), st)"

definition resolvePath ::
  "string \<Rightarrow> (string \<Rightarrow> js_value + string) \<Rightarrow> ('w, 'r) filesystem \<Rightarrow> (nat \<Rightarrow> real) \<Rightarrow> 'w state
     \<Rightarrow> string list \<Rightarrow> (js_value + string) \<times> 'w state" where
  "resolvePath cwd validatePath fs rnd st pathSegments = (Inr (posix_resolve cwd pathSegments), st)"

section \<open>Notions used by the properties\<close>

text \<open>The invariant of the data model (spec, section 3), as a predicate on a configuration.\<close>

definition data_model_invariant :: "ThrottleConfig \<Rightarrow> bool" where
  "data_model_invariant c =
     (0 < maxConcurrency c \<and> 0 \<le> maxRetries c \<and> 0 < baseDelay c \<and> 0 < maxDelay c
      \<and> baseDelay c \<le> maxDelay c)"

text \<open>
  The states of the module over its lifetime: it starts from \<open>init\<close>; callers
  reconfigure it (only with the calls that \<open>allowed\<close> admits for the live
  configuration) and take snapshots; operations in flight change the counters of the
  limiter, the world and the trace.
\<close>

inductive reach :: "(ThrottleConfig \<Rightarrow> PartialThrottleConfig \<Rightarrow> bool) \<Rightarrow> 'w state \<Rightarrow> bool"
  for allowed :: "ThrottleConfig \<Rightarrow> PartialThrottleConfig \<Rightarrow> bool" where
  start: "reach allowed (init w)"
| configure:
    "reach allowed st \<Longrightarrow> allowed (live st) newConfig
       \<Longrightarrow> reach allowed (snd (configureThrottling st newConfig))"
| snapshot: "reach allowed st \<Longrightarrow> reach allowed (snd (getThrottlingConfig st))"
| activity:
    "reach allowed st
       \<Longrightarrow> reach allowed
             (st\<lparr>fsLimit := (fsLimit st)\<lparr>activeCount := a, pendingCount := q\<rparr>,
                 world := w, trace := t\<rparr>)"

text \<open>
  Which reconfigurations the callers make: any at all, or only those whose merged
  result satisfies the invariant of the data model.
\<close>

definition any_call :: "ThrottleConfig \<Rightarrow> PartialThrottleConfig \<Rightarrow> bool" where
  "any_call c p = True"

definition valid_call :: "ThrottleConfig \<Rightarrow> PartialThrottleConfig \<Rightarrow> bool" where
  "valid_call c p = data_model_invariant (spread c p)"

text \<open>Observers of a trace.\<close>

fun is_attempt :: "event \<Rightarrow> bool" where
  "is_attempt (EvAttempt sc res) = True"
| "is_attempt ev = False"



text \<open>
  The access gate applied to the paths of a call in order, up to the first rejection.
\<close>

fun validate_all :: "(string \<Rightarrow> js_value + string) \<Rightarrow> string list \<Rightarrow> js_value + string list" where
  "validate_all vp [] = Inr []"
| "validate_all vp (p # ps) =
     (case vp p of
        Inl e \<Rightarrow> Inl e
      | Inr v \<Rightarrow> (case validate_all vp ps of Inl e \<Rightarrow> Inl e | Inr vs \<Rightarrow> Inr (v # vs)))"


text \<open>The state after a failed attempt has been observed, and after the warning and the sleep.\<close>

definition after_attempt :: "'w state \<Rightarrow> 'w \<Rightarrow> syscall \<Rightarrow> js_value \<Rightarrow> 'w state" where
  "after_attempt st w operation error = emit [EvAttempt operation (Some error)] (st\<lparr>world := w\<rparr>)"

definition after_warn :: "(nat \<Rightarrow> real) \<Rightarrow> string \<Rightarrow> nat \<Rightarrow> 'w state \<Rightarrow> 'w state" where
  "after_warn rnd operationName attempt st =
     emit [EvWarn operationName (int attempt + 1) (maxRetries (live st) + 1)
             (calculateDelay (live st) (rnd attempt) attempt),
           EvSleep (calculateDelay (live st) (rnd attempt) attempt)] st"

text \<open>
  A call that got past the gate: it went to the limiter first, and every primitive it
  invoked received the paths \<open>vs\<close>.
\<close>

definition passes_limiter :: "'w state \<Rightarrow> string list \<Rightarrow> 'r promise \<times> 'w state \<Rightarrow> bool" where
  "passes_limiter st vs r =
     (\<exists>evs. trace (snd r) = trace st @ evs
        \<and> evs \<noteq> [] \<and> (hd evs = EvAdmit \<or> evs = [EvEnqueue])
        \<and> (\<forall>ev\<in>set evs. \<forall>sc res. ev = EvAttempt sc res \<longrightarrow> syscall_paths sc = vs))"

subsection \<open>Examples\<close>

text \<open>
  Two errors of the operating system, a file system on which every call fails with a
  given error, one whose first nine calls fail for want of descriptors, a gate that
  admits the single path \<open>/srv/ok\<close>, and the state after the call
  \<open>configureThrottling({ maxRetries: -1 })\<close> on the defaults.
\<close>

definition emfile :: js_value where
  "emfile = JObj [(''code'', JStr ''EMFILE''), (''message'', JStr ''too many open files'')]"

definition enoent :: js_value where
  "enoent = JObj [(''code'', JStr ''ENOENT''), (''message'', JStr ''no such file or directory'')]"

definition fs_failing :: "js_value \<Rightarrow> (unit, unit) filesystem" where
  "fs_failing e sc w = (Inl e, w)"

definition gate_example :: "string \<Rightarrow> js_value + string" where
  "gate_example p =
     (if p = ''/srv/ok'' then Inr ''/srv/ok''
      else Inl (mkError ''PathNotAllowedError'' p))"


definition no_jitter :: "nat \<Rightarrow> real" where
  "no_jitter k = 0"


definition busy :: "unit state" where
  "busy = (init ())\<lparr>fsLimit := \<lparr>concurrency = 100, activeCount = 2, pendingCount = 0\<rparr>\<rparr>"

section \<open>Auxiliary facts\<close>

lemma live_emit [simp]: "live (emit evs st) = live st"
  by (simp add: live_def emit_def)

lemma live_world [simp]: "live (st\<lparr>world := w\<rparr>) = live st"
  by (simp add: live_def)

lemma trace_emit [simp]: "trace (emit evs st) = trace st @ evs"
  by (simp add: emit_def)

lemma frame_emit [simp]:
  "heap (emit evs st) = heap st" "nextRef (emit evs st) = nextRef st"
  "config (emit evs st) = config st" "fsLimit (emit evs st) = fsLimit st"
  "world (emit evs st) = world st"
  by (simp_all add: emit_def)

declare retryLoop.simps [simp del]

text \<open>The four ways an iteration of the loop can go.\<close>

lemma retryLoop_exhausted:
  "\<not> int attempt \<le> maxRetries (live st)
     \<Longrightarrow> retryLoop fs rnd operation operationName attempt lastError st = (Inl lastError, st)"
  by (subst retryLoop.simps) simp

lemma retryLoop_success:
  "int attempt \<le> maxRetries (live st) \<Longrightarrow> fs operation (world st) = (Inr v, w)
     \<Longrightarrow> retryLoop fs rnd operation operationName attempt lastError st
         = (Inr v, emit [EvAttempt operation None] (st\<lparr>world := w\<rparr>))"
  by (subst retryLoop.simps) simp

lemma retryLoop_fatal:
  "int attempt \<le> maxRetries (live st) \<Longrightarrow> fs operation (world st) = (Inl error, w)
     \<Longrightarrow> \<not> (isFileDescriptorError error \<and> int attempt < maxRetries (live st))
     \<Longrightarrow> retryLoop fs rnd operation operationName attempt lastError st
         = (Inl error, emit [EvAttempt operation (Some error)] (st\<lparr>world := w\<rparr>))"
  by (subst retryLoop.simps) (auto simp: Let_def)

lemma retryLoop_retry:
  "int attempt < maxRetries (live st) \<Longrightarrow> fs operation (world st) = (Inl error, w)
     \<Longrightarrow> isFileDescriptorError error
     \<Longrightarrow> retryLoop fs rnd operation operationName attempt lastError st
         = retryLoop fs rnd operation operationName (Suc attempt) error
             (emit [EvWarn operationName (int attempt + 1) (maxRetries (live st) + 1)
                      (calculateDelay (live st) (rnd attempt) attempt),
                    EvSleep (calculateDelay (live st) (rnd attempt) attempt)]
                (emit [EvAttempt operation (Some error)] (st\<lparr>world := w\<rparr>)))"
  by (subst retryLoop.simps) (auto simp: Let_def)


lemma retryLoop_induct [case_names exhausted success fatal retry]:
  assumes exhausted:
    "\<And>attempt lastError st. \<not> int attempt \<le> maxRetries (live st)
        \<Longrightarrow> P attempt lastError st (Inl lastError, st)"
  and success:
    "\<And>attempt lastError st v w. int attempt \<le> maxRetries (live st)
        \<Longrightarrow> fs operation (world st) = (Inr v, w)
        \<Longrightarrow> P attempt lastError st (Inr v, emit [EvAttempt operation None] (st\<lparr>world := w\<rparr>))"
  and fatal:
    "\<And>attempt lastError st error w. int attempt \<le> maxRetries (live st)
        \<Longrightarrow> fs operation (world st) = (Inl error, w)
        \<Longrightarrow> \<not> (isFileDescriptorError error \<and> int attempt < maxRetries (live st))
        \<Longrightarrow> P attempt lastError st (Inl error, after_attempt st w operation error)"
  and retry:
    "\<And>attempt lastError st error w. int attempt < maxRetries (live st)
        \<Longrightarrow> fs operation (world st) = (Inl error, w)
        \<Longrightarrow> isFileDescriptorError error
        \<Longrightarrow> P (Suc attempt) error
              (after_warn rnd operationName attempt (after_attempt st w operation error))
              (retryLoop fs rnd operation operationName (Suc attempt) error
                 (after_warn rnd operationName attempt (after_attempt st w operation error)))
        \<Longrightarrow> P attempt lastError st
              (retryLoop fs rnd operation operationName (Suc attempt) error
                 (after_warn rnd operationName attempt (after_attempt st w operation error)))"
  shows "P attempt lastError st (retryLoop fs rnd operation operationName attempt lastError st)"
proof (induction "nat (maxRetries (live st) + 1) - attempt" arbitrary: attempt lastError st)
  case 0
  then have "\<not> int attempt \<le> maxRetries (live st)" by linarith
  then show ?case by (simp add: retryLoop_exhausted exhausted)
next
  case (Suc n)
  then have le: "int attempt \<le> maxRetries (live st)" by linarith
  obtain r w where fsr: "fs operation (world st) = (r, w)" by (cases "fs operation (world st)")
  show ?case
  proof (cases r)
    case (Inr v)
    with le fsr show ?thesis by (simp add: retryLoop_success success)
  next
    case (Inl error)
    show ?thesis
    proof (cases "isFileDescriptorError error \<and> int attempt < maxRetries (live st)")
      case False
      with le fsr Inl show ?thesis
        using fatal[of attempt st error w lastError] 
        by (simp add: retryLoop_fatal after_attempt_def)
    next
      case True
      let ?st2 = "after_warn rnd operationName attempt (after_attempt st w operation error)"
      have lv: "live ?st2 = live st" by (simp add: after_warn_def after_attempt_def)
      have "n = nat (maxRetries (live ?st2) + 1) - Suc attempt" using Suc(2) by (simp add: lv)
      then have IH: "P (Suc attempt) error ?st2
                       (retryLoop fs rnd operation operationName (Suc attempt) error ?st2)"
        by (rule Suc(1))
      have "retryLoop fs rnd operation operationName attempt lastError st
              = retryLoop fs rnd operation operationName (Suc attempt) error ?st2"
        unfolding after_warn_def after_attempt_def live_emit live_world
        using True fsr Inl by (intro retryLoop_retry) auto
      then show ?thesis using retry[of attempt st error w lastError] True fsr Inl IH by simp
    qed
  qed
qed

lemma retryLoop_frame_snd:
  "heap (snd (retryLoop fs rnd operation operationName attempt lastError st)) = heap st
   \<and> nextRef (snd (retryLoop fs rnd operation operationName attempt lastError st)) = nextRef st
   \<and> config (snd (retryLoop fs rnd operation operationName attempt lastError st)) = config st
   \<and> fsLimit (snd (retryLoop fs rnd operation operationName attempt lastError st)) = fsLimit st"
proof (induction attempt lastError st rule: retryLoop_induct[where fs = fs and operation = operation and rnd = rnd and operationName = operationName])
  case (exhausted attempt lastError st)
  then show ?case by simp
next
  case (success attempt lastError st v w)
  then show ?case by simp
next
  case (fatal attempt lastError st error w)
  then show ?case by (simp add: after_attempt_def)
next
  case (retry attempt lastError st error w)
  then show ?case by (simp add: after_attempt_def after_warn_def)
qed


lemma retryLoop_trace:
  "\<exists>evs. trace (snd (retryLoop fs rnd operation operationName attempt lastError st)) = trace st @ evs
      \<and> (\<forall>ev\<in>set evs. \<forall>sc res. ev = EvAttempt sc res \<longrightarrow> sc = operation)
      \<and> (int attempt \<le> maxRetries (live st) \<longrightarrow> evs \<noteq> [] \<and> is_attempt (hd evs))"
proof (induction attempt lastError st rule: retryLoop_induct[where fs = fs and operation = operation and rnd = rnd and operationName = operationName])
  case (exhausted attempt lastError st)
  then show ?case by simp
next
  case (success attempt lastError st v w)
  then show ?case by simp
next
  case (fatal attempt lastError st error w)
  then show ?case by (simp add: after_attempt_def)
next
  case (retry attempt lastError st error w)
  let ?st2 = "after_warn rnd operationName attempt (after_attempt st w operation error)"
  let ?R = "retryLoop fs rnd operation operationName (Suc attempt) error ?st2"
  from retry(4) obtain evs where
    t: "trace (snd ?R) = trace ?st2 @ evs"
    and a: "\<forall>ev\<in>set evs. \<forall>sc res. ev = EvAttempt sc res \<longrightarrow> sc = operation"
    by blast
  let ?pre = "[EvAttempt operation (Some error),
               EvWarn operationName (int attempt + 1) (maxRetries (live st) + 1)
                 (calculateDelay (live st) (rnd attempt) attempt),
               EvSleep (calculateDelay (live st) (rnd attempt) attempt)]"
  have "trace ?st2 = trace st @ ?pre" by (simp add: after_warn_def after_attempt_def)
  with t have "trace (snd ?R) = trace st @ (?pre @ evs)" by simp
  moreover have "\<forall>ev\<in>set (?pre @ evs). \<forall>sc res. ev = EvAttempt sc res \<longrightarrow> sc = operation"
    using a by auto
  moreover have "?pre @ evs \<noteq> [] \<and> is_attempt (hd (?pre @ evs))" by simp
  ultimately show ?case by blast
qed


lemma world_after [simp]:
  "world (after_warn rnd operationName attempt (after_attempt st w operation error)) = w"
  by (simp add: after_warn_def after_attempt_def)



lemma executeWithRetry_trace:
  assumes "syscall_paths operation = vs"
  shows "passes_limiter st vs (executeWithRetry fs rnd operation operationName st)"
proof (cases "int (activeCount (fsLimit st)) < concurrency (fsLimit st) \<and> pendingCount (fsLimit st) = 0")
  case False
  then show ?thesis by (auto simp: executeWithRetry_def passes_limiter_def)
next
  case True
  let ?st1 = "emit [EvAdmit]
                (st\<lparr>fsLimit := (fsLimit st)\<lparr>activeCount := Suc (activeCount (fsLimit st))\<rparr>\<rparr>)"
  let ?R = "retryLoop fs rnd operation operationName 0 JUndefined ?st1"
  obtain evs where t: "trace (snd ?R) = trace ?st1 @ evs"
    and a: "\<forall>ev\<in>set evs. \<forall>sc res. ev = EvAttempt sc res \<longrightarrow> sc = operation"
    using retryLoop_trace[of fs rnd operation operationName 0 JUndefined ?st1] by blast
  have "trace (snd (executeWithRetry fs rnd operation operationName st))
          = trace st @ (EvAdmit # evs @ [EvRelease])"
    using True t by (simp add: executeWithRetry_def Let_def case_prod_beta)
  moreover have "\<forall>ev\<in>set (EvAdmit # evs @ [EvRelease]). \<forall>sc res.
                   ev = EvAttempt sc res \<longrightarrow> syscall_paths sc = vs"
    using a assms by auto
  ultimately show ?thesis unfolding passes_limiter_def by force
qed

lemmas entry_defs =
  access_def readFile_def writeFile_def mkdir_def readdir_def stat_def lstat_def rm_def
  unlink_def copyFile_def appendFile_def rename_def

lemma perform_rejected:
  "validate_all validatePath (paths_of req) = Inl e
     \<Longrightarrow> perform validatePath fs rnd st req = (Rejected e, st)"
  by (cases req) (auto simp: entry_defs split: sum.splits)

lemma perform_accepted:
  assumes "validate_all validatePath (paths_of req) = Inr vs"
  shows "passes_limiter st vs (perform validatePath fs rnd st req)"
  using assms
  by (cases req)
     (auto simp: entry_defs intro!: executeWithRetry_trace
           split: sum.splits option.splits prod.splits bool.splits)

lemma conflict_ne_type: "conflictError l \<noteq> mkError ''TypeError'' m"
  by (simp add: conflictError_def mkError_def)

lemma configureThrottling_merged:
  assumes "configureThrottling st newConfig = (Inr (), st')"
  shows "live st' = spread (live st) newConfig"
  using assms
  by (auto simp: configureThrottling_def Let_def alloc_def pLimit_def live_def
           split: option.splits sum.splits if_splits)

lemma configureThrottling_failed:
  assumes "configureThrottling st newConfig = (Inl e, st')"
  shows "st' = st"
  using assms
  by (auto simp: configureThrottling_def Let_def alloc_def pLimit_def live_def
           split: option.splits sum.splits if_splits)

lemma init_fsLimit: "pLimit (maxConcurrency DEFAULT_CONFIG) = Inr (fsLimit (init w))"
  by (simp add: pLimit_def init_def DEFAULT_CONFIG_def)

lemma configureThrottling_live:
  "live (snd (configureThrottling st newConfig)) = live st
   \<or> live (snd (configureThrottling st newConfig)) = spread (live st) newConfig"
  by (auto simp: configureThrottling_def Let_def alloc_def pLimit_def live_def
           split: option.splits sum.splits if_splits)

lemma configureThrottling_capacity:
  assumes "concurrency (fsLimit st) = maxConcurrency (live st)"
  shows "concurrency (fsLimit (snd (configureThrottling st newConfig)))
           = maxConcurrency (live (snd (configureThrottling st newConfig)))"
  using assms
  by (auto simp: configureThrottling_def Let_def alloc_def pLimit_def live_def spread_def
           split: option.splits sum.splits if_splits)

lemma configureThrottling_allocated:
  assumes "config st < nextRef st"
  shows "config (snd (configureThrottling st newConfig))
           < nextRef (snd (configureThrottling st newConfig))"
  using assms
  by (auto simp: configureThrottling_def Let_def alloc_def pLimit_def
           split: option.splits sum.splits if_splits)

lemma reach_allocated: "reach allowed st \<Longrightarrow> config st < nextRef st"
proof (induction rule: reach.induct)
  case (start w)
  show ?case by (simp add: init_def)
next
  case (configure st newConfig)
  then show ?case by (simp add: configureThrottling_allocated)
next
  case (snapshot st)
  then show ?case by (simp add: getThrottlingConfig_def alloc_def)
next
  case (activity st a q w t)
  then show ?case by simp
qed

lemma executeWithRetry_frame:
  "heap (snd (executeWithRetry fs rnd operation operationName st)) = heap st
   \<and> nextRef (snd (executeWithRetry fs rnd operation operationName st)) = nextRef st
   \<and> config (snd (executeWithRetry fs rnd operation operationName st)) = config st
   \<and> concurrency (fsLimit (snd (executeWithRetry fs rnd operation operationName st)))
       = concurrency (fsLimit st)"
  using retryLoop_frame_snd[of fs rnd operation operationName 0 JUndefined
          "emit [EvAdmit]
             (st\<lparr>fsLimit := (fsLimit st)\<lparr>activeCount := Suc (activeCount (fsLimit st))\<rparr>\<rparr>)"]
  by (simp add: executeWithRetry_def Let_def case_prod_beta)

lemma perform_frame:
  "heap (snd (perform validatePath fs rnd st req)) = heap st
   \<and> nextRef (snd (perform validatePath fs rnd st req)) = nextRef st
   \<and> config (snd (perform validatePath fs rnd st req)) = config st
   \<and> concurrency (fsLimit (snd (perform validatePath fs rnd st req))) = concurrency (fsLimit st)"
  by (cases req) (simp_all add: entry_defs executeWithRetry_frame split: sum.splits)

lemma perform_is_activity:
  "snd (perform validatePath fs rnd st req)
     = st\<lparr>fsLimit := (fsLimit st)
             \<lparr>activeCount := activeCount (fsLimit (snd (perform validatePath fs rnd st req))),
              pendingCount := pendingCount (fsLimit (snd (perform validatePath fs rnd st req)))\<rparr>,
          world := world (snd (perform validatePath fs rnd st req)),
          trace := trace (snd (perform validatePath fs rnd st req))\<rparr>"
  using perform_frame[of validatePath fs rnd st req]
  by (intro state.equality limiter.equality) simp_all

lemma reach_perform:
  "reach allowed st \<Longrightarrow> reach allowed (snd (perform validatePath fs rnd st req))"
  by (subst perform_is_activity) (rule reach.activity)

section \<open>Retry engine: properties\<close>

text \<open>
  Claim C5. For every attempt index \<open>a\<close> the backoff delay is
  \<open>min (baseDelay * 2 ^ a + jitter) maxDelay\<close>, where the jitter is the random number of
  \<open>[0, 1)\<close> times \<open>baseDelay\<close> and so lies in \<open>[0, baseDelay)\<close>; for a positive
  \<open>baseDelay\<close> that is at most \<open>maxDelay\<close>, the delay lies between
  \<open>baseDelay * 2 ^ a\<close> and \<open>baseDelay * 2 ^ a + baseDelay\<close>, both clamped to
  \<open>maxDelay\<close>. Numbers are real numbers here; that the jitter is uniformly distributed
  is not expressed.
\<close>

theorem calculateDelay_bounds:
  assumes "0 \<le> random" and "random < 1"
      and "0 < baseDelay cfg" and "baseDelay cfg \<le> maxDelay cfg"
  shows "calculateDelay cfg random a
           = min (baseDelay cfg * 2 ^ a + random * baseDelay cfg) (maxDelay cfg)
       \<and> 0 \<le> random * baseDelay cfg \<and> random * baseDelay cfg < baseDelay cfg
       \<and> min (baseDelay cfg * 2 ^ a) (maxDelay cfg) \<le> calculateDelay cfg random a
       \<and> calculateDelay cfg random a \<le> min (baseDelay cfg * 2 ^ a + baseDelay cfg) (maxDelay cfg)"
proof -
  define j where "j = random * baseDelay cfg"
  define E where "E = baseDelay cfg * 2 ^ a"
  have j0: "0 \<le> j" using assms by (simp add: j_def)
  have j1: "j < baseDelay cfg" using assms by (simp add: j_def)
  have eq: "calculateDelay cfg random a = min (E + j) (maxDelay cfg)"
    by (simp add: calculateDelay_def Let_def j_def E_def)
  have lo: "min E (maxDelay cfg) \<le> min (E + j) (maxDelay cfg)"
    using j0 by (simp add: min_def)
  have hi: "min (E + j) (maxDelay cfg) \<le> min (E + baseDelay cfg) (maxDelay cfg)"
    using j1 by (simp add: min_def)
  show ?thesis using eq lo hi j0 j1 unfolding j_def E_def by simp
qed

theorem calculateDelay_bounds_witness:
  "(0::real) \<le> 1 / 2 \<and> (1 / 2 :: real) < 1
   \<and> 0 < baseDelay DEFAULT_CONFIG \<and> baseDelay DEFAULT_CONFIG \<le> maxDelay DEFAULT_CONFIG
   \<and> calculateDelay DEFAULT_CONFIG (1 / 2) 2 = 450
   \<and> (400::real) \<le> calculateDelay DEFAULT_CONFIG (1 / 2) 2
   \<and> calculateDelay DEFAULT_CONFIG (1 / 2) 2 \<le> 500"
  using calculateDelay_bounds [of "1 / 2" DEFAULT_CONFIG 2]
  by (simp add: DEFAULT_CONFIG_def)






section \<open>Operation surface: properties\<close>

text \<open>
  Claim C1. Every entry point passes the paths of its caller through the access gate
  first. If the gate rejects one of them (for \<open>copyFile\<close> and \<open>rename\<close>: either of
  the two), the call is rejected with the gate's error and nothing else happens: the
  state is the one before the call, so no slot of the limiter is taken, the retry loop
  is not entered and no primitive is invoked. If the gate accepts them all, the call
  goes to the limiter, and every primitive invoked receives the validated paths.
\<close>

theorem gate_before_limiter:
  "(validate_all validatePath (paths_of req) = Inl e
      \<longrightarrow> perform validatePath fs rnd st req = (Rejected e, st))
   \<and> (validate_all validatePath (paths_of req) = Inr vs \<longrightarrow>
        (\<exists>evs. trace (snd (perform validatePath fs rnd st req)) = trace st @ evs
           \<and> evs \<noteq> [] \<and> (hd evs = EvAdmit \<or> evs = [EvEnqueue])
           \<and> (\<forall>ev\<in>set evs. \<forall>sc res. ev = EvAttempt sc res \<longrightarrow> syscall_paths sc = vs)))"
  using perform_rejected[of validatePath req e fs rnd st]
        perform_accepted[of validatePath req vs st fs rnd]
  unfolding passes_limiter_def by blast

theorem gate_before_limiter_witness:
  "validate_all gate_example (paths_of (Rename ''/srv/ok'' ''/etc/passwd''))
     = Inl (mkError ''PathNotAllowedError'' ''/etc/passwd'')
   \<and> perform gate_example (fs_failing enoent) (\<lambda>k. 0) (init ()) (Rename ''/srv/ok'' ''/etc/passwd'')
       = (Rejected (mkError ''PathNotAllowedError'' ''/etc/passwd''), init ())
   \<and> validate_all gate_example (paths_of (Stat ''/srv/ok'')) = Inr [''/srv/ok'']
   \<and> (\<exists>evs. trace (snd (perform gate_example (fs_failing enoent) (\<lambda>k. 0) (init ())
                          (Stat ''/srv/ok''))) = evs
         \<and> hd evs = EvAdmit
         \<and> (\<forall>ev\<in>set evs. \<forall>sc res. ev = EvAttempt sc res \<longrightarrow> syscall_paths sc = [''/srv/ok'']))"
proof -
  have rej: "validate_all gate_example (paths_of (Rename ''/srv/ok'' ''/etc/passwd''))
               = Inl (mkError ''PathNotAllowedError'' ''/etc/passwd'')"
    by (simp add: gate_example_def)
  have acc: "validate_all gate_example (paths_of (Stat ''/srv/ok'')) = Inr [''/srv/ok'']"
    by (simp add: gate_example_def)
  have free: "fsLimit (init ()) = \<lparr>concurrency = 100, activeCount = 0, pendingCount = 0\<rparr>"
    by (simp add: init_def DEFAULT_CONFIG_def)
  have not_queued:
    "trace (snd (perform gate_example (fs_failing enoent) (\<lambda>k. 0) (init ()) (Stat ''/srv/ok'')))
       \<noteq> trace (init ()) @ [EvEnqueue]"
    by (simp add: stat_def gate_example_def executeWithRetry_def free Let_def case_prod_beta)
  have empty: "trace (init ()) = []" by (simp add: init_def)
  show ?thesis
    using gate_before_limiter
            [where validatePath = gate_example and req = "Rename ''/srv/ok'' ''/etc/passwd''"
               and e = "mkError ''PathNotAllowedError'' ''/etc/passwd''"
               and fs = "fs_failing enoent" and rnd = "\<lambda>k. 0" and st = "init ()"]
          gate_before_limiter
            [where validatePath = gate_example and req = "Stat ''/srv/ok''"
               and vs = "[''/srv/ok'']"
               and fs = "fs_failing enoent" and rnd = "\<lambda>k. 0" and st = "init ()"]
          rej acc not_queued
    unfolding empty by auto
qed

text \<open>
  Claim C9, as stated, fails for \<open>resolvePath\<close>: with a relative segment its result
  depends on the working directory of the process, not only on the segments (in the
  POSIX variant modelled here, and in the win32 variant of \<open>path.resolve\<close> alike).
\<close>

theorem resolvePath_depends_on_cwd:
  "fst (resolvePath ''/home/a'' gate_example (fs_failing enoent) no_jitter (init ()) [''x''])
     \<noteq> fst (resolvePath ''/home/b'' gate_example (fs_failing enoent) no_jitter (init ()) [''x''])"
  by (simp add: resolvePath_def posix_resolve_def normalizeString_def starts_with_slash_def)

text \<open>
  Claim C9, amended. \<open>joinPath\<close> and \<open>resolvePath\<close> never invoke the gate, the
  limiter or the retry loop: whatever the gate decides and whatever the file system
  does, they return a result and not a thrown value, they leave the state of the module
  as it is (no counter of the limiter changes, no event is added, the world is the
  same), and the result is the same for every gate, file system, random source and
  module state. So the result of \<open>joinPath\<close> depends on the segments only and that of
  \<open>resolvePath\<close> on the segments and the working directory of the process only.
\<close>

theorem path_helpers_pure:
  "snd (joinPath validatePath fs rnd st pathSegments) = st
   \<and> (\<exists>r. fst (joinPath validatePath fs rnd st pathSegments) = Inr r)
   \<and> fst (joinPath validatePath fs rnd st pathSegments)
       = fst (joinPath validatePath' fs' rnd' st' pathSegments)
   \<and> snd (resolvePath cwd validatePath fs rnd st pathSegments) = st
   \<and> (\<exists>r. fst (resolvePath cwd validatePath fs rnd st pathSegments) = Inr r)
   \<and> fst (resolvePath cwd validatePath fs rnd st pathSegments)
       = fst (resolvePath cwd validatePath' fs' rnd' st' pathSegments)"
  by (simp add: joinPath_def resolvePath_def)

theorem path_helpers_pure_witness:
  "validate_all gate_example [''/etc/passwd''] = Inl (mkError ''PathNotAllowedError'' ''/etc/passwd'')
   \<and> joinPath gate_example (fs_failing enoent) no_jitter busy [''/etc'', ''x/../passwd'']
       = (Inr ''/etc/passwd'', busy)
   \<and> resolvePath ''/home/a'' gate_example (fs_failing enoent) no_jitter busy [''/etc'', ''passwd'']
       = (Inr ''/etc/passwd'', busy)
   \<and> fst (resolvePath ''/home/a'' gate_example (fs_failing emfile) (\<lambda>k. 1 / 2) (init ())
            [''/etc'', ''passwd''])
       = Inr ''/etc/passwd''"
proof -
  have g: "validate_all gate_example [''/etc/passwd'']
             = Inl (mkError ''PathNotAllowedError'' ''/etc/passwd'')"
    by (simp add: gate_example_def)
  have j: "fst (joinPath gate_example (fs_failing enoent) no_jitter busy [''/etc'', ''x/../passwd''])
             = Inr ''/etc/passwd''"
    by (simp add: joinPath_def posix_join_def posix_normalize_def normalizeString_def
          starts_with_slash_def ends_with_slash_def Let_def)
  have v: "fst (resolvePath ''/home/a'' gate_example (fs_failing enoent) no_jitter busy
                  [''/etc'', ''passwd''])
             = Inr ''/etc/passwd''"
    by (simp add: resolvePath_def posix_resolve_def normalizeString_def starts_with_slash_def)
  show ?thesis
    using path_helpers_pure
            [where validatePath = gate_example and fs = "fs_failing enoent" and rnd = no_jitter
               and st = busy and validatePath' = gate_example and fs' = "fs_failing emfile"
               and rnd' = "\<lambda>k. 1 / 2" and st' = "init ()" and cwd = "''/home/a''"
               and pathSegments = "[''/etc'', ''passwd'']"]
          path_helpers_pure
            [where validatePath = gate_example and fs = "fs_failing enoent" and rnd = no_jitter
               and st = busy and validatePath' = gate_example and fs' = "fs_failing enoent"
               and rnd' = no_jitter and st' = busy and cwd = "''/home/a''"
               and pathSegments = "[''/etc'', ''x/../passwd'']"]
          g j v
    by (simp add: prod_eq_iff)
qed

section \<open>Configuration manager: properties\<close>

text \<open>
  Claim C4. \<open>configureThrottling\<close> fails with the reconfiguration-conflict error
  exactly when the partial configuration supplies a \<open>maxConcurrency\<close> different from
  the current one while an operation is active or pending; on that failure the whole
  state (configuration and limiter) is as before. A call that omits \<open>maxConcurrency\<close>
  or supplies the current value succeeds, also while operations are in flight.
\<close>

theorem reconfiguration_conflict:
  "(fst (configureThrottling st newConfig) = Inl (conflictError (fsLimit st))
     \<longleftrightarrow> (\<exists>n. p_maxConcurrency newConfig = Some n \<and> n \<noteq> maxConcurrency (live st)
              \<and> (0 < getActiveOperations st \<or> 0 < getPendingOperations st)))
   \<and> (fst (configureThrottling st newConfig) = Inl (conflictError (fsLimit st))
        \<longrightarrow> snd (configureThrottling st newConfig) = st)
   \<and> (p_maxConcurrency newConfig = None
        \<or> p_maxConcurrency newConfig = Some (maxConcurrency (live st))
        \<longrightarrow> fst (configureThrottling st newConfig) = Inr ())"
  by (auto simp: configureThrottling_def Let_def alloc_def pLimit_def conflict_ne_type
             conflict_ne_type[THEN not_sym] getActiveOperations_def getPendingOperations_def
           split: option.splits sum.splits if_splits)

theorem reconfiguration_conflict_witness:
  "getActiveOperations busy = 2
   \<and> fst (configureThrottling busy
          \<lparr>p_maxConcurrency = Some 50, p_maxRetries = None, p_baseDelay = None, p_maxDelay = None\<rparr>)
     = Inl (conflictError (fsLimit busy))
   \<and> snd (configureThrottling busy
            \<lparr>p_maxConcurrency = Some 50, p_maxRetries = None, p_baseDelay = None, p_maxDelay = None\<rparr>)
       = busy
   \<and> fst (configureThrottling busy
            \<lparr>p_maxConcurrency = Some 100, p_maxRetries = Some 5, p_baseDelay = None, p_maxDelay = None\<rparr>)
       = Inr ()"
  using reconfiguration_conflict
          [of busy "\<lparr>p_maxConcurrency = Some 50, p_maxRetries = None, p_baseDelay = None,
                     p_maxDelay = None\<rparr>"]
        reconfiguration_conflict
          [of busy "\<lparr>p_maxConcurrency = Some 100, p_maxRetries = Some 5, p_baseDelay = None,
                     p_maxDelay = None\<rparr>"]
  by (simp add: busy_def init_def live_def DEFAULT_CONFIG_def getActiveOperations_def
        getPendingOperations_def)

text \<open>
  Claim C6. A successful \<open>configureThrottling\<close> sets each supplied field of the live
  configuration to the supplied value and leaves each omitted field as it was. The
  call with \<open>{ maxRetries: 5 }\<close> always succeeds, and the snapshot taken after it has
  \<open>maxRetries = 5\<close> and the other three fields as before.
\<close>

theorem partial_merge_law:
  "(configureThrottling st newConfig = (Inr (), st') \<longrightarrow>
      maxConcurrency (live st')
        = (case p_maxConcurrency newConfig of Some v \<Rightarrow> v | None \<Rightarrow> maxConcurrency (live st))
    \<and> maxRetries (live st')
        = (case p_maxRetries newConfig of Some v \<Rightarrow> v | None \<Rightarrow> maxRetries (live st))
    \<and> baseDelay (live st')
        = (case p_baseDelay newConfig of Some v \<Rightarrow> v | None \<Rightarrow> baseDelay (live st))
    \<and> maxDelay (live st')
        = (case p_maxDelay newConfig of Some v \<Rightarrow> v | None \<Rightarrow> maxDelay (live st)))
   \<and> (\<exists>st''. configureThrottling st
                \<lparr>p_maxConcurrency = None, p_maxRetries = Some 5, p_baseDelay = None,
                 p_maxDelay = None\<rparr> = (Inr (), st'')
          \<and> heap (snd (getThrottlingConfig st'')) (fst (getThrottlingConfig st''))
              = (live st)\<lparr>maxRetries := 5\<rparr>)"
proof (intro conjI impI)
  assume ok: "configureThrottling st newConfig = (Inr (), st')"
  have "live st' = spread (live st) newConfig" using ok by (rule configureThrottling_merged)
  then show
    "maxConcurrency (live st')
       = (case p_maxConcurrency newConfig of Some v \<Rightarrow> v | None \<Rightarrow> maxConcurrency (live st))"
    "maxRetries (live st')
       = (case p_maxRetries newConfig of Some v \<Rightarrow> v | None \<Rightarrow> maxRetries (live st))"
    "baseDelay (live st')
       = (case p_baseDelay newConfig of Some v \<Rightarrow> v | None \<Rightarrow> baseDelay (live st))"
    "maxDelay (live st')
       = (case p_maxDelay newConfig of Some v \<Rightarrow> v | None \<Rightarrow> maxDelay (live st))"
    by (simp_all add: spread_def)
next
  show "\<exists>st''. configureThrottling st
                \<lparr>p_maxConcurrency = None, p_maxRetries = Some 5, p_baseDelay = None,
                 p_maxDelay = None\<rparr> = (Inr (), st'')
          \<and> heap (snd (getThrottlingConfig st'')) (fst (getThrottlingConfig st''))
              = (live st)\<lparr>maxRetries := 5\<rparr>"
    by (simp add: configureThrottling_def getThrottlingConfig_def alloc_def live_def spread_def)
qed

theorem partial_merge_law_witness:
  "configureThrottling busy
     \<lparr>p_maxConcurrency = None, p_maxRetries = Some 5, p_baseDelay = Some 200, p_maxDelay = None\<rparr>
     = (Inr (), busy\<lparr>heap := (heap busy)(1 := \<lparr>maxConcurrency = 100, maxRetries = 5,
                                                 baseDelay = 200, maxDelay = 5000\<rparr>),
                     nextRef := 2, config := 1\<rparr>)
   \<and> live (busy\<lparr>heap := (heap busy)(1 := \<lparr>maxConcurrency = 100, maxRetries = 5,
                                             baseDelay = 200, maxDelay = 5000\<rparr>),
                 nextRef := 2, config := 1\<rparr>)
       = \<lparr>maxConcurrency = 100, maxRetries = 5, baseDelay = 200, maxDelay = 5000\<rparr>"
proof -
  have run: "configureThrottling busy
     \<lparr>p_maxConcurrency = None, p_maxRetries = Some 5, p_baseDelay = Some 200, p_maxDelay = None\<rparr>
     = (Inr (), busy\<lparr>heap := (heap busy)(1 := \<lparr>maxConcurrency = 100, maxRetries = 5,
                                                 baseDelay = 200, maxDelay = 5000\<rparr>),
                     nextRef := 2, config := 1\<rparr>)"
    by (simp add: configureThrottling_def alloc_def live_def spread_def busy_def init_def
          DEFAULT_CONFIG_def)
  have prior: "live busy = \<lparr>maxConcurrency = 100, maxRetries = 3, baseDelay = 100, maxDelay = 5000\<rparr>"
    by (simp add: live_def busy_def init_def DEFAULT_CONFIG_def)
  show ?thesis
    using partial_merge_law
            [where st = busy and st' = "busy\<lparr>heap := (heap busy)(1 := \<lparr>maxConcurrency = 100,
                      maxRetries = 5, baseDelay = 200, maxDelay = 5000\<rparr>), nextRef := 2, config := 1\<rparr>"
               and newConfig = "\<lparr>p_maxConcurrency = None, p_maxRetries = Some 5,
                      p_baseDelay = Some 200, p_maxDelay = None\<rparr>"]
          run prior
    by (simp add: ThrottleConfig.equality)
qed

text \<open>
  Claim C10. In every state that the module reaches (from its start, through any
  reconfigurations, snapshots and operations in flight), the capacity of the live
  limiter equals \<open>maxConcurrency\<close> of the live configuration.
\<close>

theorem limiter_matches_config:
  "reach any_call st \<Longrightarrow> concurrency (fsLimit st) = maxConcurrency (live st)"
proof (induction rule: reach.induct)
  case (start w)
  show ?case by (simp add: init_def live_def)
next
  case (configure st newConfig)
  then show ?case by (simp add: configureThrottling_capacity)
next
  case (snapshot st)
  then show ?case by (simp add: getThrottlingConfig_def alloc_def live_def)
next
  case (activity st a q w t)
  then show ?case by (simp add: live_def)
qed

theorem limiter_matches_config_witness:
  "reach any_call (snd (configureThrottling (init ())
       \<lparr>p_maxConcurrency = Some 2, p_maxRetries = None, p_baseDelay = None, p_maxDelay = None\<rparr>))
   \<and> concurrency (fsLimit (snd (configureThrottling (init ())
       \<lparr>p_maxConcurrency = Some 2, p_maxRetries = None, p_baseDelay = None, p_maxDelay = None\<rparr>))) = 2
   \<and> maxConcurrency (live (snd (configureThrottling (init ())
       \<lparr>p_maxConcurrency = Some 2, p_maxRetries = None, p_baseDelay = None, p_maxDelay = None\<rparr>))) = 2"
proof -
  let ?p = "\<lparr>p_maxConcurrency = Some 2, p_maxRetries = None, p_baseDelay = None, p_maxDelay = None\<rparr>"
  have r: "reach any_call (snd (configureThrottling (init ()) ?p))"
    by (intro reach.configure reach.start) (simp add: any_call_def)
  have c: "concurrency (fsLimit (snd (configureThrottling (init ()) ?p))) = 2"
    by (simp add: configureThrottling_def Let_def alloc_def pLimit_def live_def init_def
          DEFAULT_CONFIG_def)
  show ?thesis using limiter_matches_config[OF r] r c by simp
qed

text \<open>
  Claim C7, as stated, fails: \<open>configureThrottling\<close> validates none of the delays, so
  after the call with \<open>{ baseDelay: 10000 }\<close> on the defaults the live configuration
  has \<open>baseDelay = 10000\<close> above \<open>maxDelay = 5000\<close>.
\<close>

theorem invariant_not_enforced:
  "\<not> baseDelay (live (snd (configureThrottling (init ())
          \<lparr>p_maxConcurrency = None, p_maxRetries = None, p_baseDelay = Some 10000,
           p_maxDelay = None\<rparr>)))
      \<le> maxDelay (live (snd (configureThrottling (init ())
          \<lparr>p_maxConcurrency = None, p_maxRetries = None, p_baseDelay = Some 10000,
           p_maxDelay = None\<rparr>)))"
  by (simp add: configureThrottling_def Let_def alloc_def live_def init_def spread_def
        DEFAULT_CONFIG_def)

text \<open>
  Claim C7, amended. The defaults satisfy the invariant of the data model, and the
  live configuration satisfies it in every state reached through reconfigurations whose
  merged result (the supplied fields over the current values) satisfies it.
\<close>

theorem invariant_when_calls_valid:
  "reach valid_call st \<Longrightarrow> data_model_invariant (live st)"
proof (induction rule: reach.induct)
  case (start w)
  show ?case by (simp add: init_def live_def data_model_invariant_def DEFAULT_CONFIG_def)
next
  case (configure st newConfig)
  then show ?case
    using configureThrottling_live[of st newConfig] by (auto simp: valid_call_def)
next
  case (snapshot st)
  then show ?case by (simp add: getThrottlingConfig_def alloc_def live_def)
next
  case (activity st a q w t)
  then show ?case by (simp add: live_def)
qed

theorem invariant_when_calls_valid_witness:
  "reach valid_call (snd (configureThrottling (init ())
       \<lparr>p_maxConcurrency = None, p_maxRetries = Some 5, p_baseDelay = Some 200,
        p_maxDelay = Some 10000\<rparr>))
   \<and> live (snd (configureThrottling (init ())
       \<lparr>p_maxConcurrency = None, p_maxRetries = Some 5, p_baseDelay = Some 200,
        p_maxDelay = Some 10000\<rparr>))
       = \<lparr>maxConcurrency = 100, maxRetries = 5, baseDelay = 200, maxDelay = 10000\<rparr>
   \<and> data_model_invariant \<lparr>maxConcurrency = 100, maxRetries = 5, baseDelay = 200, maxDelay = 10000\<rparr>"
proof -
  let ?p = "\<lparr>p_maxConcurrency = None, p_maxRetries = Some 5, p_baseDelay = Some 200,
             p_maxDelay = Some 10000\<rparr>"
  have v: "valid_call (live (init ())) ?p"
    by (simp add: valid_call_def data_model_invariant_def spread_def live_def init_def
          DEFAULT_CONFIG_def)
  have r: "reach valid_call (snd (configureThrottling (init ()) ?p))"
    by (intro reach.configure reach.start v)
  have l: "live (snd (configureThrottling (init ()) ?p))
             = \<lparr>maxConcurrency = 100, maxRetries = 5, baseDelay = 200, maxDelay = 10000\<rparr>"
    by (simp add: configureThrottling_def Let_def alloc_def live_def init_def spread_def
          DEFAULT_CONFIG_def)
  show ?thesis using invariant_when_calls_valid[OF r] r l by simp
qed

text \<open>
  Claim C8. \<open>getThrottlingConfig\<close> returns a new object that holds the values of
  the live configuration and is not the live object: whatever is written to the
  returned object afterwards, the live configuration and the next snapshot are as
  before. (The live object is always an allocated one: \<open>config st < nextRef st\<close>.)
\<close>

theorem snapshot_is_a_copy:
  assumes "config st < nextRef st"
  shows "(let (r, st1) = getThrottlingConfig st;
              st2 = st1\<lparr>heap := (heap st1)(r := obj)\<rparr>;
              (r', st3) = getThrottlingConfig st2
          in heap st1 r = live st \<and> r \<noteq> config st1 \<and> live st2 = live st
             \<and> heap st3 r' = live st)"
  using assms by (simp add: getThrottlingConfig_def alloc_def live_def Let_def)

theorem snapshot_is_a_copy_witness:
  "config (init ()) < nextRef (init ())
   \<and> (let (r, st1) = getThrottlingConfig (init ());
           st2 = st1\<lparr>heap := (heap st1)(r := \<lparr>maxConcurrency = 1, maxRetries = 99,
                                               baseDelay = 7, maxDelay = 3\<rparr>)\<rparr>;
           (r', st3) = getThrottlingConfig st2
       in r = 1 \<and> heap st2 r = \<lparr>maxConcurrency = 1, maxRetries = 99, baseDelay = 7, maxDelay = 3\<rparr>
          \<and> r' = 2 \<and> heap st3 r' = DEFAULT_CONFIG)"
proof -
  have a: "config (init ()) < nextRef (init ())" by (simp add: init_def)
  have l: "live (init ()) = DEFAULT_CONFIG" by (simp add: live_def init_def)
  show ?thesis
    using snapshot_is_a_copy[OF a, of "\<lparr>maxConcurrency = 1, maxRetries = 99, baseDelay = 7,
                                         maxDelay = 3\<rparr>"] a l
    by (simp add: getThrottlingConfig_def alloc_def Let_def init_def)
qed

end
